theory Spec2Isabelle
  imports Main "HOL-Library.AList"
begin

section \<open>Data model of the signaling relay (src/server.js)\<close>

text \<open>
  A WebSocket object is identified by a number. The payload of a signal is opaque to the
  relay. Peer identifiers are JavaScript numbers that only ever hold integers, counted up
  from 2 by steps of 1; they are integers here (the counter stays exact below \<open>2 ^ 53\<close>).
\<close>

type_synonym conn = nat
type_synonym payload = string

text \<open>
  The value stored under a room name in \<^verbatim>\<open>rooms\<close>:
  \<^verbatim>\<open>{ host: WebSocket, clients: Map<peer_id, WebSocket>, password, next_peer_id }\<close>.
  A JavaScript \<^verbatim>\<open>Map\<close> iterates in insertion order, so \<open>clients\<close> is an association
  list: \<^verbatim>\<open>set\<close> is \<^const>\<open>AList.update\<close> (a new key goes to the end, an old key keeps
  its place), \<^verbatim>\<open>delete\<close> is \<^const>\<open>AList.delete\<close>, \<^verbatim>\<open>has\<close>/\<^verbatim>\<open>get\<close> are
  \<^const>\<open>map_of\<close>, \<^verbatim>\<open>size\<close> is \<^const>\<open>length\<close> and \<^verbatim>\<open>keys()\<close> is \<open>map fst\<close>.
  The password is \<^verbatim>\<open>null\<close> (\<open>None\<close>) or a string.
\<close>

record room =
  host :: conn
  clients :: "(int \<times> conn) list"
  password :: "string option"
  next_peer_id :: int

text \<open>
  The three variables that every connection closes over:
  \<^verbatim>\<open>let currentRoom = null; let isHost = false; let peerId = 0;\<close>
\<close>

record session =
  currentRoom :: "string option"
  isHost :: bool
  peerId :: int

text \<open>
  The whole server: the global \<^verbatim>\<open>rooms\<close> map (its iteration order is never used) and
  the session variables of each connection.
\<close>

record state =
  rooms :: "string \<rightharpoonup> room"
  sessions :: "conn \<Rightarrow> session"

text \<open>The envelopes the server writes, one constructor for each \<^verbatim>\<open>type\<close>.\<close>

datatype envelope =
    ErrorEnv string
  | RoomCreated string int
  | RoomJoined string int "int list"
  | PeerJoined int
  | SignalOut payload int
  | HostDisconnected
  | PeerLeft int

text \<open>What a handler does to the outside: \<^verbatim>\<open>c.send(...)\<close> and \<^verbatim>\<open>c.close()\<close>, in order.\<close>

datatype action = Send conn envelope | CloseConn conn

text \<open>
  The parsed input message. \<open>room_name\<close> is a string; \<open>password\<close> and
  \<open>target_peer_id\<close> may be absent (\<^verbatim>\<open>undefined\<close>, here \<open>None\<close>). Any other message is
  ignored by the \<^verbatim>\<open>switch\<close>.
\<close>

datatype message =
    CreateRoom string "string option"
  | JoinRoom string "string option"
  | Signal payload "int option"
  | Unrecognized

datatype event = Message conn message | Disconnect conn

section \<open>JavaScript truthiness\<close>

text \<open>A string is truthy unless it is empty; \<^verbatim>\<open>null\<close> and \<^verbatim>\<open>undefined\<close> are falsy.\<close>

definition truthy_str :: "string option \<Rightarrow> bool" where
  "truthy_str v = (case v of None \<Rightarrow> False | Some x \<Rightarrow> x \<noteq> [])"

text \<open>A number is truthy unless it is zero.\<close>

definition truthy_num :: "int option \<Rightarrow> bool" where
  "truthy_num v = (case v of None \<Rightarrow> False | Some n \<Rightarrow> n \<noteq> 0)"

text \<open>\<^verbatim>\<open>password || null\<close>\<close>

definition or_null :: "string option \<Rightarrow> string option" where
  "or_null v = (if truthy_str v then v else None)"

section \<open>The handlers\<close>

text \<open>
  \<^verbatim>\<open>function handleCreateRoom(ws, message)\<close>, with \<open>message\<close> already taken apart into
  \<open>room_name\<close> and \<open>password\<close>.
\<close>

definition handleCreateRoom ::
  "conn \<Rightarrow> string \<Rightarrow> string option \<Rightarrow> state \<Rightarrow> state \<times> action list" where
  "handleCreateRoom ws room_name pwd s =
     (if rooms s room_name \<noteq> None then
        (s, [Send ws (ErrorEnv ''Room already exists'')])
      else
        (s\<lparr>rooms := (rooms s)(room_name \<mapsto>
               \<lparr>host = ws, clients = [], password = or_null pwd, next_peer_id = 2\<rparr>),
           sessions := (sessions s)(ws :=
               \<lparr>currentRoom = Some room_name, isHost = True, peerId = 1\<rparr>)\<rparr>,
         [Send ws (RoomCreated room_name 1)]))"

text \<open>
  \<^verbatim>\<open>function handleJoinRoom(ws, message)\<close>. The three checks come in the order of the
  source: existence, password, capacity. The list of existing peers is computed after the
  insertion, by filtering the new identifier out of the keys, as the source does; so is the
  notification of the other clients.
\<close>

definition handleJoinRoom ::
  "conn \<Rightarrow> string \<Rightarrow> string option \<Rightarrow> state \<Rightarrow> state \<times> action list" where
  "handleJoinRoom ws room_name pwd s =
     (case rooms s room_name of
        None \<Rightarrow> (s, [Send ws (ErrorEnv ''Room not found'')])
      | Some rm \<Rightarrow>
          if truthy_str (password rm) \<and> password rm \<noteq> pwd then
            (s, [Send ws (ErrorEnv ''Wrong password'')])
          else if length (clients rm) \<ge> 4 then
            (s, [Send ws (ErrorEnv ''Room is full (max 5 players)'')])
          else
            let peer_id = next_peer_id rm;
                rm' = rm\<lparr>next_peer_id := next_peer_id rm + 1,
                        clients := AList.update peer_id ws (clients rm)\<rparr>;
                existing_peer_ids = filter (\<lambda>i. i \<noteq> peer_id) (map fst (clients rm'))
            in (s\<lparr>rooms := (rooms s)(room_name \<mapsto> rm'),
                  sessions := (sessions s)(ws :=
                    \<lparr>currentRoom = Some room_name, isHost = False, peerId = peer_id\<rparr>)\<rparr>,
                [Send ws (RoomJoined room_name peer_id existing_peer_ids),
                 Send (host rm') (PeerJoined peer_id)]
                @ map (\<lambda>(client_peer_id, client_ws). Send client_ws (PeerJoined peer_id))
                    (filter (\<lambda>(client_peer_id, client_ws). client_peer_id \<noteq> peer_id)
                       (clients rm'))))"

text \<open>
  \<^verbatim>\<open>function handleSignal(ws, message)\<close>. The guard \<^verbatim>\<open>!room_name\<close> also holds for the
  empty string. For the host, \<^verbatim>\<open>target_peer_id && room.clients.has(target_peer_id)\<close> is
  tried first, then \<^verbatim>\<open>!target_peer_id\<close>, which holds for an absent target and for 0.
\<close>

definition handleSignal ::
  "conn \<Rightarrow> payload \<Rightarrow> int option \<Rightarrow> state \<Rightarrow> state \<times> action list" where
  "handleSignal ws dat target_peer_id s =
     (let room_name = currentRoom (sessions s ws) in
      case room_name of
        None \<Rightarrow> (s, [])
      | Some rn \<Rightarrow>
          if \<not> truthy_str room_name \<or> rooms s rn = None then (s, [])
          else
            (case rooms s rn of
               None \<Rightarrow> (s, [])
             | Some rm \<Rightarrow>
                 let from_peer_id = peerId (sessions s ws) in
                 if isHost (sessions s ws) then
                   (case target_peer_id of
                      Some t \<Rightarrow>
                        (case (if truthy_num target_peer_id then map_of (clients rm) t
                               else None) of
                           Some target_client \<Rightarrow> (s, [Send target_client (SignalOut dat 1)])
                         | None \<Rightarrow>
                             if \<not> truthy_num target_peer_id then
                               (s, map (\<lambda>(k, client). Send client (SignalOut dat 1))
                                     (clients rm))
                             else (s, []))
                    | None \<Rightarrow>
                        (s, map (\<lambda>(k, client). Send client (SignalOut dat 1)) (clients rm)))
                 else
                   (s, [Send (host rm) (SignalOut dat from_peer_id)])))"

text \<open>
  \<^verbatim>\<open>function cleanupConnection(room_name, ws, isHost, peer_id)\<close>. The test
  \<^verbatim>\<open>if (room.host)\<close> of the client branch is always true, the host being an object.
\<close>

definition cleanupConnection ::
  "string \<Rightarrow> conn \<Rightarrow> bool \<Rightarrow> int \<Rightarrow> state \<Rightarrow> state \<times> action list" where
  "cleanupConnection room_name ws is_host peer_id s =
     (case rooms s room_name of
        None \<Rightarrow> (s, [])
      | Some rm \<Rightarrow>
          if is_host then
            (s\<lparr>rooms := (rooms s)(room_name := None)\<rparr>,
             concat (map (\<lambda>(k, client). [Send client HostDisconnected, CloseConn client])
                       (clients rm)))
          else
            let rm' = rm\<lparr>clients := AList.delete peer_id (clients rm)\<rparr> in
            (s\<lparr>rooms := (rooms s)(room_name \<mapsto> rm')\<rparr>,
             Send (host rm') (PeerLeft peer_id)
             # map (\<lambda>(k, client). Send client (PeerLeft peer_id)) (clients rm')))"

section \<open>The event loop\<close>

text \<open>\<^verbatim>\<open>ws.on('message', ...)\<close>: the \<^verbatim>\<open>switch\<close> on the type of the message.\<close>

definition onMessage :: "conn \<Rightarrow> message \<Rightarrow> state \<Rightarrow> state \<times> action list" where
  "onMessage ws m s =
     (case m of
        CreateRoom room_name pwd \<Rightarrow> handleCreateRoom ws room_name pwd s
      | JoinRoom room_name pwd \<Rightarrow> handleJoinRoom ws room_name pwd s
      | Signal dat target_peer_id \<Rightarrow> handleSignal ws dat target_peer_id s
      | Unrecognized \<Rightarrow> (s, []))"

text \<open>
  \<^verbatim>\<open>ws.on('close', ...)\<close>: clean up \<^verbatim>\<open>if (currentRoom)\<close>, which is false for
  \<^verbatim>\<open>null\<close> and for the empty room name.
\<close>

definition onClose :: "conn \<Rightarrow> state \<Rightarrow> state \<times> action list" where
  "onClose ws s =
     (case currentRoom (sessions s ws) of
        None \<Rightarrow> (s, [])
      | Some rn \<Rightarrow>
          if truthy_str (currentRoom (sessions s ws)) then
            cleanupConnection rn ws (isHost (sessions s ws)) (peerId (sessions s ws)) s
          else (s, []))"

definition step :: "event \<Rightarrow> state \<Rightarrow> state \<times> action list" where
  "step e s = (case e of Message ws m \<Rightarrow> onMessage ws m s | Disconnect ws \<Rightarrow> onClose ws s)"

text \<open>The server at start: no room, every connection with its initial variables.\<close>

definition init :: state where
  "init = \<lparr>rooms = Map.empty,
           sessions = (\<lambda>_. \<lparr>currentRoom = None, isHost = False, peerId = 0\<rparr>)\<rparr>"

text \<open>The state after a list of events, oldest first.\<close>

fun run :: "event list \<Rightarrow> state \<Rightarrow> state" where
  "run [] s = s"
| "run (e # es) s = run es (fst (step e s))"

text \<open>
  The states the server can be in. Events arrive in any order here (a message may even
  follow the close of its connection), so the set is at least as large as what the
  transport allows, and what holds of every reachable state holds of every state of the
  server.
\<close>

inductive reachable :: "state \<Rightarrow> bool" where
  reachable_init: "reachable init"
| reachable_step: "reachable s \<Longrightarrow> reachable (fst (step e s))"

text \<open>
  The room called \<open>n\<close> exists before the events and after each of them: one lifetime of
  the room, since no single event both deletes and creates a room.
\<close>

fun alive :: "string \<Rightarrow> event list \<Rightarrow> state \<Rightarrow> bool" where
  "alive n [] s = (rooms s n \<noteq> None)"
| "alive n (e # es) s = (rooms s n \<noteq> None \<and> alive n es (fst (step e s)))"

section \<open>Predicates of the proofs\<close>

text \<open>
  What holds of every room of a reachable state: the keys of \<open>clients\<close> are distinct (the
  list stands for a \<^verbatim>\<open>Map\<close>), each is at least 2 and below \<open>next_peer_id\<close>.
\<close>

definition room_inv :: "room \<Rightarrow> bool" where
  "room_inv rm \<longleftrightarrow>
     distinct (map fst (clients rm)) \<and>
     (\<forall>k \<in> fst ` set (clients rm). 2 \<le> k \<and> k < next_peer_id rm) \<and>
     2 \<le> next_peer_id rm"

text \<open>
  How a room \<open>r'\<close> relates to an earlier \<open>r\<close> of the same lifetime: the counter has not
  gone down, password and host are the same, and a client that is new has an identifier
  that the counter of \<open>r\<close> had not reached.
\<close>

definition room_extends :: "room \<Rightarrow> room \<Rightarrow> bool" where
  "room_extends r r' \<longleftrightarrow>
     next_peer_id r \<le> next_peer_id r' \<and> password r' = password r \<and> host r' = host r \<and>
     (\<forall>b \<in> set (clients r'). b \<in> set (clients r) \<or> next_peer_id r \<le> fst b)"

section \<open>Concrete executions\<close>

text \<open>
  The example of the specification: connection 0 creates \<open>r1\<close> without a password,
  connections 1 and 2 join it.
\<close>

definition scenario :: "event list" where
  "scenario = [Message 0 (CreateRoom ''r1'' None), Message 1 (JoinRoom ''r1'' None),
               Message 2 (JoinRoom ''r1'' None)]"

definition scenario_room :: room where
  "scenario_room = \<lparr>host = 0, clients = [(2, 1), (3, 2)], password = None, next_peer_id = 4\<rparr>"

text \<open>
  A room filled to capacity: connection 0 creates it, connections 1 to 4 join it, all with
  the same password field.
\<close>

definition full_house :: "string \<Rightarrow> string option \<Rightarrow> event list" where
  "full_house room_name pwd =
     [Message 0 (CreateRoom room_name pwd), Message 1 (JoinRoom room_name pwd),
      Message 2 (JoinRoom room_name pwd), Message 3 (JoinRoom room_name pwd),
      Message 4 (JoinRoom room_name pwd)]"

definition full_room :: "string option \<Rightarrow> room" where
  "full_room pwd =
     \<lparr>host = 0, clients = [(2, 1), (3, 2), (4, 3), (5, 4)], password = pwd, next_peer_id = 6\<rparr>"

text \<open>A room whose name is the empty string, with one client.\<close>

definition nameless :: "event list" where
  "nameless = [Message 0 (CreateRoom [] None), Message 1 (JoinRoom [] None)]"

section \<open>Lists as maps\<close>

lemma update_fresh: "k \<notin> fst ` set al \<Longrightarrow> AList.update k v al = al @ [(k, v)]"
  by (induction al) auto

lemma filter_keys_fresh: "k \<notin> fst ` set al \<Longrightarrow> filter (\<lambda>(k', c). k' \<noteq> k) al = al"
  by (induction al) auto

lemma filter_ids_fresh: "k \<notin> set ks \<Longrightarrow> filter (\<lambda>i. i \<noteq> k) ks = ks"
  by (induction ks) auto

lemma set_update_subset: "set (AList.update k v al) \<subseteq> insert (k, v) (set al)"
  by (induction al) auto

lemma set_delete_subset: "set (AList.delete k al) \<subseteq> set al"
  by (auto simp: AList.delete_eq)

section \<open>The invariant of rooms\<close>

text \<open>
  Each way a handler writes a room keeps \<open>room_inv\<close>; so every event does, and every room
  of a reachable state has it.
\<close>

lemma room_inv_create: "room_inv \<lparr>host = ws, clients = [], password = p, next_peer_id = 2\<rparr>"
  by (simp add: room_inv_def)

lemma room_inv_join:
  assumes "room_inv rm"
  shows "room_inv (rm\<lparr>next_peer_id := next_peer_id rm + 1,
                      clients := AList.update (next_peer_id rm) ws (clients rm)\<rparr>)"
proof -
  from assms have fresh: "next_peer_id rm \<notin> fst ` set (clients rm)"
    by (auto simp: room_inv_def)
  with assms show ?thesis
    by (auto simp: room_inv_def update_fresh)
qed

lemma room_inv_leave:
  assumes "room_inv rm"
  shows "room_inv (rm\<lparr>clients := AList.delete peer_id (clients rm)\<rparr>)"
  using assms set_delete_subset [of peer_id "clients rm"]
  by (auto simp: room_inv_def AList.distinct_delete)

lemma handleCreateRoom_inv:
  assumes "\<And>n r. rooms s n = Some r \<Longrightarrow> room_inv r"
    and "rooms (fst (handleCreateRoom ws rn pwd s)) n = Some r'"
  shows "room_inv r'"
  using assms by (auto simp: handleCreateRoom_def room_inv_create split: if_splits)

lemma handleJoinRoom_inv:
  assumes "\<And>n r. rooms s n = Some r \<Longrightarrow> room_inv r"
    and "rooms (fst (handleJoinRoom ws rn pwd s)) n = Some r'"
  shows "room_inv r'"
  using assms
  by (auto simp: handleJoinRoom_def Let_def room_inv_join split: option.splits if_splits)

lemma handleSignal_state: "fst (handleSignal ws dat t s) = s"
  by (simp add: handleSignal_def Let_def split: option.splits)

lemma cleanupConnection_inv:
  assumes "\<And>n r. rooms s n = Some r \<Longrightarrow> room_inv r"
    and "rooms (fst (cleanupConnection rn ws h p s)) n = Some r'"
  shows "room_inv r'"
  using assms
  by (auto simp: cleanupConnection_def Let_def room_inv_leave split: option.splits if_splits)

lemma step_inv:
  assumes "\<And>n r. rooms s n = Some r \<Longrightarrow> room_inv r"
    and "rooms (fst (step e s)) n = Some r'"
  shows "room_inv r'"
proof (cases e)
  case (Message ws m)
  with assms show ?thesis
    by (cases m)
       (auto simp: step_def onMessage_def handleSignal_state
             intro: handleCreateRoom_inv handleJoinRoom_inv)
next
  case (Disconnect ws)
  with assms show ?thesis
    by (auto simp: step_def onClose_def split: option.splits if_splits
             intro: cleanupConnection_inv)
qed

lemma reachable_inv: "reachable s \<Longrightarrow> rooms s n = Some r \<Longrightarrow> room_inv r"
proof (induction arbitrary: n r rule: reachable.induct)
  case reachable_init
  then show ?case by (simp add: init_def)
next
  case (reachable_step s e)
  then show ?case using step_inv by blast
qed

lemma reachable_run: "reachable s \<Longrightarrow> reachable (run evs s)"
  by (induction evs arbitrary: s) (auto intro: reachable_step)

section \<open>One lifetime of a room\<close>

text \<open>
  An event that leaves a room in the registry leaves its host and password alone, does not
  lower its counter, and adds at most a client under the old value of the counter.
\<close>

lemma extends_refl: "room_extends r r"
  by (simp add: room_extends_def)

lemma extends_trans: "room_extends r r' \<Longrightarrow> room_extends r' r'' \<Longrightarrow> room_extends r r''"
  unfolding room_extends_def by (metis order_trans)

lemma extends_join:
  "room_extends rm (rm\<lparr>next_peer_id := next_peer_id rm + 1,
              clients := AList.update (next_peer_id rm) ws (clients rm)\<rparr>)"
  using set_update_subset [of "next_peer_id rm" ws "clients rm"]
  by (auto simp: room_extends_def)

lemma extends_leave: "room_extends rm (rm\<lparr>clients := AList.delete peer_id (clients rm)\<rparr>)"
  using set_delete_subset [of peer_id "clients rm"]
  by (auto simp: room_extends_def)

lemma handleCreateRoom_extends:
  assumes "rooms s n = Some r"
    and "rooms (fst (handleCreateRoom ws rn pwd s)) n = Some r'"
  shows "room_extends r r'"
  using assms by (auto simp: handleCreateRoom_def extends_refl split: if_splits)

lemma handleJoinRoom_extends:
  assumes "rooms s n = Some r"
    and "rooms (fst (handleJoinRoom ws rn pwd s)) n = Some r'"
  shows "room_extends r r'"
  using assms
  by (auto simp: handleJoinRoom_def Let_def extends_refl extends_join
      split: option.splits if_splits)

lemma cleanupConnection_extends:
  assumes "rooms s n = Some r"
    and "rooms (fst (cleanupConnection rn ws h p s)) n = Some r'"
  shows "room_extends r r'"
  using assms
  by (auto simp: cleanupConnection_def Let_def extends_refl extends_leave
      split: option.splits if_splits)

lemma step_extends:
  assumes "rooms s n = Some r" and "rooms (fst (step e s)) n = Some r'"
  shows "room_extends r r'"
proof (cases e)
  case (Message ws m)
  with assms show ?thesis
    by (cases m)
       (auto simp: step_def onMessage_def handleSignal_state extends_refl
             intro: handleCreateRoom_extends handleJoinRoom_extends)
next
  case (Disconnect ws)
  with assms show ?thesis
    by (auto simp: step_def onClose_def extends_refl split: option.splits if_splits
             intro: cleanupConnection_extends)
qed

lemma run_extends:
  assumes "alive n evs s" and "rooms s n = Some r" and "rooms (run evs s) n = Some r'"
  shows "room_extends r r'"
  using assms
proof (induction evs arbitrary: s r)
  case Nil
  then show ?case by (simp add: extends_refl)
next
  case (Cons e es)
  from Cons.prems(1) have al: "alive n es (fst (step e s))" by simp
  then have "rooms (fst (step e s)) n \<noteq> None" by (cases es) auto
  then obtain r1 where r1: "rooms (fst (step e s)) n = Some r1" by blast
  have "room_extends r r1" using step_extends [OF Cons.prems(2) r1] .
  moreover have "room_extends r1 r'" using Cons.IH [OF al r1] Cons.prems(3) by simp
  ultimately show ?case by (rule extends_trans)
qed

text \<open>The first envelope of a join is \<open>room_joined\<close> only on the success branch.\<close>

lemma join_success:
  assumes "hd (snd (handleJoinRoom ws n pwd s)) = Send ws (RoomJoined n p ex)"
  shows "\<exists>r. rooms s n = Some r \<and> p = next_peer_id r \<and>
            rooms (fst (handleJoinRoom ws n pwd s)) n =
              Some (r\<lparr>next_peer_id := next_peer_id r + 1,
                      clients := AList.update (next_peer_id r) ws (clients r)\<rparr>)"
  using assms
  by (auto simp: handleJoinRoom_def Let_def split: option.splits if_splits)

section \<open>The concrete executions, evaluated\<close>

text \<open>The handlers unfold on concrete events; the simplifier computes the states.\<close>

lemmas handler_defs = step_def onMessage_def onClose_def handleCreateRoom_def handleJoinRoom_def
  handleSignal_def cleanupConnection_def truthy_str_def truthy_num_def or_null_def init_def

lemma scenario_rooms: "rooms (run scenario init) ''r1'' = Some scenario_room"
  by (simp add: scenario_def scenario_room_def handler_defs)

lemma scenario_rooms': "rooms (run scenario init) = [''r1'' \<mapsto> scenario_room]"
  by (simp add: scenario_def scenario_room_def handler_defs)

lemma scenario_reachable: "reachable (run scenario init)"
  by (rule reachable_run [OF reachable_init])

lemma scenario_sessions:
  "sessions (run scenario init) 0 = \<lparr>currentRoom = Some ''r1'', isHost = True, peerId = 1\<rparr>"
  "sessions (run scenario init) 1 = \<lparr>currentRoom = Some ''r1'', isHost = False, peerId = 2\<rparr>"
  "sessions (run scenario init) 2 = \<lparr>currentRoom = Some ''r1'', isHost = False, peerId = 3\<rparr>"
  by (simp_all add: scenario_def handler_defs)

lemma locked_rooms:
  "rooms (run (full_house ''locked'' (Some ''pw'')) init) ''locked'' = Some (full_room (Some ''pw''))"
  by (simp add: full_house_def full_room_def handler_defs)

lemma open_rooms:
  "rooms (run (full_house ''open'' (Some [])) init) ''open'' = Some (full_room None)"
  by (simp add: full_house_def full_room_def handler_defs)

lemma nameless_rooms:
  "rooms (run nameless init) [] =
     Some \<lparr>host = 0, clients = [(2, 1)], password = None, next_peer_id = 3\<rparr>"
  by (simp add: nameless_def handler_defs)

lemma nameless_session:
  "sessions (run nameless init) 1 = \<lparr>currentRoom = Some [], isHost = False, peerId = 2\<rparr>"
  by (simp add: nameless_def handler_defs)

section \<open>Joining a room without a password\<close>

text \<open>
  With no stored password the password test is skipped: the supplied password plays no
  part, and only the capacity decides.
\<close>

lemma join_password_free:
  assumes "rooms s room_name = Some rm" and "password rm = None"
  shows "handleJoinRoom ws room_name pwd s = handleJoinRoom ws room_name None s"
    and "snd (handleJoinRoom ws room_name pwd s) \<noteq> [Send ws (ErrorEnv ''Wrong password'')]"
    and "length (clients rm) < 4 \<Longrightarrow>
      \<exists>ex. hd (snd (handleJoinRoom ws room_name pwd s)) =
        Send ws (RoomJoined room_name (next_peer_id rm) ex)"
  using assms by (simp_all add: handleJoinRoom_def truthy_str_def Let_def)

section \<open>Creating a room under a name that is taken\<close>

text \<open>
  C9. A \<open>create_room\<close> request whose name is already in the registry is answered with the
  error envelope "Room already exists" sent to the requester only, and the whole state
  (the existing room, the registry, the sessions) is returned as it was.
\<close>

theorem create_room_exists:
  assumes "rooms s room_name = Some rm"
  shows "handleCreateRoom ws room_name pwd s = (s, [Send ws (ErrorEnv ''Room already exists'')])"
  using assms by (simp add: handleCreateRoom_def)

theorem create_room_exists_witness:
  "rooms (run scenario init) ''r1'' = Some scenario_room \<and>
   handleCreateRoom 5 ''r1'' (Some ''pw'') (run scenario init) =
     (run scenario init, [Send 5 (ErrorEnv ''Room already exists'')])"
  using create_room_exists [OF scenario_rooms, of 5 "Some ''pw''"] scenario_rooms by simp

section \<open>Peer identifiers\<close>

text \<open>
  C4. In every reachable state the client identifiers of a room are pairwise distinct, at
  least 2 and below \<open>next_peer_id\<close>, which is at least 2. A room is created with counter 2
  and no client. While the room lives, whatever the events, \<open>next_peer_id\<close> does not go
  down; a client that leaves does not change it. No identifier is handed out twice: when a
  join of the room succeeds with identifier \<open>p1\<close> and, after any events that keep the room
  alive, another join of the room succeeds with \<open>p2\<close>, then \<open>p1 < p2\<close>.
\<close>

theorem peer_ids_unique_never_reused:
  assumes "reachable s" and "rooms s n = Some r"
  shows "distinct (map fst (clients r)) \<and>
    (\<forall>k \<in> fst ` set (clients r). 2 \<le> k \<and> k < next_peer_id r) \<and>
    2 \<le> next_peer_id r \<and>
    (\<forall>ws n' pwd r0. rooms s n' = None \<longrightarrow>
        rooms (fst (handleCreateRoom ws n' pwd s)) n' = Some r0 \<longrightarrow>
        next_peer_id r0 = 2 \<and> clients r0 = []) \<and>
    (\<forall>evs r'. alive n evs s \<longrightarrow> rooms (run evs s) n = Some r' \<longrightarrow>
        next_peer_id r \<le> next_peer_id r') \<and>
    (\<forall>ws peer_id r'. rooms (fst (cleanupConnection n ws False peer_id s)) n = Some r' \<longrightarrow>
        next_peer_id r' = next_peer_id r) \<and>
    (\<forall>ws1 pw1 p1 ex1 evs ws2 pw2 p2 ex2.
        hd (snd (handleJoinRoom ws1 n pw1 s)) = Send ws1 (RoomJoined n p1 ex1) \<longrightarrow>
        alive n evs (fst (handleJoinRoom ws1 n pw1 s)) \<longrightarrow>
        hd (snd (handleJoinRoom ws2 n pw2 (run evs (fst (handleJoinRoom ws1 n pw1 s))))) =
          Send ws2 (RoomJoined n p2 ex2) \<longrightarrow>
        p1 < p2)"
proof -
  have inv: "room_inv r" using assms by (rule reachable_inv)
  have start: "next_peer_id r0 = 2 \<and> clients r0 = []"
    if "rooms s n' = None" and "rooms (fst (handleCreateRoom ws n' pwd s)) n' = Some r0"
    for ws n' pwd r0
    using that by (auto simp: handleCreateRoom_def)
  have mono: "next_peer_id r \<le> next_peer_id r'"
    if "alive n evs s" and "rooms (run evs s) n = Some r'" for evs r'
    using run_extends [OF that(1) assms(2) that(2)] by (simp add: room_extends_def)
  have leave: "next_peer_id r' = next_peer_id r"
    if "rooms (fst (cleanupConnection n ws False peer_id s)) n = Some r'" for ws peer_id r'
    using that assms(2) by (auto simp: cleanupConnection_def Let_def)
  have fresh: "p1 < p2"
    if j1: "hd (snd (handleJoinRoom ws1 n pw1 s)) = Send ws1 (RoomJoined n p1 ex1)"
      and al: "alive n evs (fst (handleJoinRoom ws1 n pw1 s))"
      and j2: "hd (snd (handleJoinRoom ws2 n pw2 (run evs (fst (handleJoinRoom ws1 n pw1 s))))) =
          Send ws2 (RoomJoined n p2 ex2)"
    for ws1 pw1 p1 ex1 evs ws2 pw2 p2 ex2
  proof -
    from join_success [OF j1] obtain r1 where
      r1: "rooms s n = Some r1" "p1 = next_peer_id r1"
        "rooms (fst (handleJoinRoom ws1 n pw1 s)) n =
           Some (r1\<lparr>next_peer_id := next_peer_id r1 + 1,
                    clients := AList.update (next_peer_id r1) ws1 (clients r1)\<rparr>)"
      by blast
    from join_success [OF j2] obtain r2 where
      r2: "rooms (run evs (fst (handleJoinRoom ws1 n pw1 s))) n = Some r2" "p2 = next_peer_id r2"
      by blast
    from run_extends [OF al r1(3) r2(1)] have "next_peer_id r1 + 1 \<le> next_peer_id r2"
      by (simp add: room_extends_def)
    with r1(2) r2(2) show ?thesis by simp
  qed
  from inv have "distinct (map fst (clients r))"
    and "\<forall>k \<in> fst ` set (clients r). 2 \<le> k \<and> k < next_peer_id r"
    and "2 \<le> next_peer_id r"
    by (simp_all add: room_inv_def)
  with start mono leave fresh show ?thesis by blast
qed

theorem peer_ids_unique_never_reused_witness:
  "reachable (run scenario init) \<and>
   rooms (run scenario init) ''r1'' = Some scenario_room \<and>
   distinct (map fst (clients scenario_room)) \<and>
   2 \<le> next_peer_id scenario_room \<and>
   alive ''r1'' [Disconnect 1] (run scenario init) \<and>
   rooms (run [Disconnect 1] (run scenario init)) ''r1'' =
     Some (scenario_room\<lparr>clients := [(3, 2)]\<rparr>) \<and>
   next_peer_id scenario_room \<le> next_peer_id (scenario_room\<lparr>clients := [(3, 2)]\<rparr>) \<and>
   hd (snd (handleJoinRoom 3 ''r1'' None (run scenario init))) =
     Send 3 (RoomJoined ''r1'' 4 [2, 3]) \<and>
   alive ''r1'' [Disconnect 3] (fst (handleJoinRoom 3 ''r1'' None (run scenario init))) \<and>
   hd (snd (handleJoinRoom 5 ''r1'' None
         (run [Disconnect 3] (fst (handleJoinRoom 3 ''r1'' None (run scenario init)))))) =
     Send 5 (RoomJoined ''r1'' 5 [2, 3]) \<and>
   (4 :: int) < 5"
proof -
  let ?s = "run scenario init"
  let ?j = "fst (handleJoinRoom 3 ''r1'' None ?s)"
  have al: "alive ''r1'' [Disconnect 1] ?s"
    by (simp add: scenario_def handler_defs)
  have after: "rooms (run [Disconnect 1] ?s) ''r1'' = Some (scenario_room\<lparr>clients := [(3, 2)]\<rparr>)"
    by (simp add: scenario_def scenario_room_def handler_defs)
  have j1: "hd (snd (handleJoinRoom 3 ''r1'' None ?s)) = Send 3 (RoomJoined ''r1'' 4 [2, 3])"
    by (simp add: scenario_def handler_defs)
  have al2: "alive ''r1'' [Disconnect 3] ?j"
    by (simp add: scenario_def handler_defs)
  have j2: "hd (snd (handleJoinRoom 5 ''r1'' None (run [Disconnect 3] ?j))) =
      Send 5 (RoomJoined ''r1'' 5 [2, 3])"
    by (simp add: scenario_def handler_defs)
  note h = peer_ids_unique_never_reused [OF scenario_reachable scenario_rooms]
  from h have "distinct (map fst (clients scenario_room))" and "2 \<le> next_peer_id scenario_room"
    by blast+
  moreover from h al after
  have "next_peer_id scenario_room \<le> next_peer_id (scenario_room\<lparr>clients := [(3, 2)]\<rparr>)"
    by blast
  moreover from h j1 al2 j2 have "(4 :: int) < 5"
    by blast
  ultimately show ?thesis
    using scenario_reachable scenario_rooms al after j1 al2 j2 by blast
qed

text \<open>
  C1. In a reachable state, a join that passes the existence, password and capacity checks
  gives the joiner the identifier \<open>next_peer_id\<close> of the room, adds one to the counter,
  appends the pair of identifier and connection to \<open>clients\<close>, and first sends the joiner
  \<open>room_joined\<close> with exactly the identifiers that were in the room before the join;
  neither 1 (the host) nor the new identifier is among them.
\<close>

theorem join_assigns_next_peer_id:
  assumes "reachable s"
    and "rooms s room_name = Some rm"
    and "\<not> (truthy_str (password rm) \<and> password rm \<noteq> pwd)"
    and "length (clients rm) < 4"
  shows "handleJoinRoom ws room_name pwd s =
     (s\<lparr>rooms := (rooms s)(room_name \<mapsto>
            rm\<lparr>next_peer_id := next_peer_id rm + 1,
               clients := clients rm @ [(next_peer_id rm, ws)]\<rparr>),
        sessions := (sessions s)(ws :=
            \<lparr>currentRoom = Some room_name, isHost = False, peerId = next_peer_id rm\<rparr>)\<rparr>,
      [Send ws (RoomJoined room_name (next_peer_id rm) (map fst (clients rm))),
       Send (host rm) (PeerJoined (next_peer_id rm))]
      @ map (\<lambda>(k, c). Send c (PeerJoined (next_peer_id rm))) (clients rm))
    \<and> 1 \<notin> set (map fst (clients rm))
    \<and> next_peer_id rm \<notin> set (map fst (clients rm))"
proof -
  have inv: "room_inv rm" using assms(1,2) by (rule reachable_inv)
  then have fresh: "next_peer_id rm \<notin> fst ` set (clients rm)"
    and no_host: "1 \<notin> fst ` set (clients rm)"
    by (auto simp: room_inv_def)
  have upd: "AList.update (next_peer_id rm) ws (clients rm) = clients rm @ [(next_peer_id rm, ws)]"
    using fresh by (rule update_fresh)
  have ids: "filter (\<lambda>i. i \<noteq> next_peer_id rm) (map fst (clients rm)) = map fst (clients rm)"
    using fresh by (intro filter_ids_fresh) simp
  have others: "filter (\<lambda>(k, c). k \<noteq> next_peer_id rm) (clients rm) = clients rm"
    using fresh by (rule filter_keys_fresh)
  show ?thesis
    using assms(2-4) fresh no_host
    by (simp add: handleJoinRoom_def Let_def upd ids others)
qed

theorem join_assigns_next_peer_id_witness:
  "reachable (run scenario init) \<and>
   rooms (run scenario init) ''r1'' = Some scenario_room \<and>
   \<not> (truthy_str (password scenario_room) \<and> password scenario_room \<noteq> Some ''x'') \<and>
   length (clients scenario_room) < 4 \<and>
   snd (handleJoinRoom 3 ''r1'' (Some ''x'') (run scenario init)) =
     [Send 3 (RoomJoined ''r1'' 4 [2, 3]), Send 0 (PeerJoined 4), Send 1 (PeerJoined 4),
      Send 2 (PeerJoined 4)] \<and>
   rooms (fst (handleJoinRoom 3 ''r1'' (Some ''x'') (run scenario init))) ''r1'' =
     Some \<lparr>host = 0, clients = [(2, 1), (3, 2), (4, 3)], password = None, next_peer_id = 5\<rparr> \<and>
   peerId (sessions (fst (handleJoinRoom 3 ''r1'' (Some ''x'') (run scenario init))) 3) = 4"
proof -
  have pw: "\<not> (truthy_str (password scenario_room) \<and> password scenario_room \<noteq> Some ''x'')"
    by (simp add: scenario_room_def truthy_str_def)
  have cap: "length (clients scenario_room) < 4"
    by (simp add: scenario_room_def)
  from join_assigns_next_peer_id [OF scenario_reachable scenario_rooms pw cap, of 3]
  show ?thesis
    using scenario_reachable scenario_rooms pw cap by (simp add: scenario_room_def)
qed

section \<open>Rejected joins\<close>

text \<open>
  C8. A join of an existing room whose password is a non-empty string, with a supplied
  password that is absent or another string, is answered with the error envelope
  "Wrong password" sent to the requester only; the state is returned as it was, so no
  identifier is taken, the counter and the clients stay, and the session of the requester
  is untouched.
\<close>

theorem join_wrong_password:
  assumes "rooms s room_name = Some rm"
    and "password rm = Some p" and "p \<noteq> []"
    and "pwd \<noteq> Some p"
  shows "handleJoinRoom ws room_name pwd s = (s, [Send ws (ErrorEnv ''Wrong password'')])"
  using assms by (auto simp: handleJoinRoom_def truthy_str_def)

theorem join_wrong_password_witness:
  "rooms (run (full_house ''locked'' (Some ''pw'')) init) ''locked'' = Some (full_room (Some ''pw'')) \<and>
   password (full_room (Some ''pw'')) = Some ''pw'' \<and> ''pw'' \<noteq> [] \<and> None \<noteq> Some ''pw'' \<and>
   handleJoinRoom 7 ''locked'' None (run (full_house ''locked'' (Some ''pw'')) init) =
     (run (full_house ''locked'' (Some ''pw'')) init, [Send 7 (ErrorEnv ''Wrong password'')])"
proof -
  have pw: "password (full_room (Some ''pw'')) = Some ''pw''" by (simp add: full_room_def)
  from join_wrong_password [OF locked_rooms pw, of None 7] locked_rooms pw
  show ?thesis by simp
qed

text \<open>
  A full room does not always answer "Room is full": the password is checked before the
  capacity. The room \<open>locked\<close> has password \<open>pw\<close> and four clients; a join with the
  password \<open>guess\<close> is answered with "Wrong password".
\<close>

theorem join_full_counterexample:
  "reachable (run (full_house ''locked'' (Some ''pw'')) init) \<and>
   rooms (run (full_house ''locked'' (Some ''pw'')) init) ''locked'' = Some (full_room (Some ''pw'')) \<and>
   length (clients (full_room (Some ''pw''))) = 4 \<and>
   snd (handleJoinRoom 7 ''locked'' (Some ''guess'') (run (full_house ''locked'' (Some ''pw'')) init))
     = [Send 7 (ErrorEnv ''Wrong password'')] \<and>
   snd (handleJoinRoom 7 ''locked'' (Some ''guess'') (run (full_house ''locked'' (Some ''pw'')) init))
     \<noteq> [Send 7 (ErrorEnv ''Room is full (max 5 players)'')]"
proof -
  have "snd (handleJoinRoom 7 ''locked'' (Some ''guess'') (run (full_house ''locked'' (Some ''pw'')) init))
     = [Send 7 (ErrorEnv ''Wrong password'')]"
    using locked_rooms by (simp add: handleJoinRoom_def full_room_def truthy_str_def)
  then show ?thesis
    using locked_rooms reachable_run [OF reachable_init] by (simp add: full_room_def)
qed

text \<open>
  C7, amended. A join of an existing room that has 4 clients (or more) changes nothing.
  When the request passes the password check (the room has no password, or the supplied
  password is equal to it), the requester is sent the error envelope
  "Room is full (max 5 players)"; when it does not, the requester is sent "Wrong password".
\<close>

theorem join_full:
  assumes "rooms s room_name = Some rm"
    and "4 \<le> length (clients rm)"
  shows "fst (handleJoinRoom ws room_name pwd s) = s \<and>
    (\<not> (truthy_str (password rm) \<and> password rm \<noteq> pwd) \<longrightarrow>
       snd (handleJoinRoom ws room_name pwd s) =
         [Send ws (ErrorEnv ''Room is full (max 5 players)'')]) \<and>
    (truthy_str (password rm) \<and> password rm \<noteq> pwd \<longrightarrow>
       snd (handleJoinRoom ws room_name pwd s) = [Send ws (ErrorEnv ''Wrong password'')])"
  using assms by (simp add: handleJoinRoom_def)

theorem join_full_witness:
  "rooms (run (full_house ''locked'' (Some ''pw'')) init) ''locked'' =
     Some (full_room (Some ''pw'')) \<and>
   4 \<le> length (clients (full_room (Some ''pw''))) \<and>
   \<not> (truthy_str (password (full_room (Some ''pw''))) \<and>
      password (full_room (Some ''pw'')) \<noteq> Some ''pw'') \<and>
   handleJoinRoom 7 ''locked'' (Some ''pw'') (run (full_house ''locked'' (Some ''pw'')) init) =
     (run (full_house ''locked'' (Some ''pw'')) init,
      [Send 7 (ErrorEnv ''Room is full (max 5 players)'')]) \<and>
   truthy_str (password (full_room (Some ''pw''))) \<and>
   password (full_room (Some ''pw'')) \<noteq> None \<and>
   handleJoinRoom 7 ''locked'' None (run (full_house ''locked'' (Some ''pw'')) init) =
     (run (full_house ''locked'' (Some ''pw'')) init, [Send 7 (ErrorEnv ''Wrong password'')])"
proof -
  have cap: "4 \<le> length (clients (full_room (Some ''pw'')))"
    by (simp add: full_room_def)
  have pw: "\<not> (truthy_str (password (full_room (Some ''pw''))) \<and>
      password (full_room (Some ''pw'')) \<noteq> Some ''pw'')"
    by (simp add: full_room_def)
  have no_pw: "truthy_str (password (full_room (Some ''pw''))) \<and>
      password (full_room (Some ''pw'')) \<noteq> None"
    by (simp add: full_room_def truthy_str_def)
  have "handleJoinRoom 7 ''locked'' (Some ''pw'') (run (full_house ''locked'' (Some ''pw'')) init) =
     (run (full_house ''locked'' (Some ''pw'')) init,
      [Send 7 (ErrorEnv ''Room is full (max 5 players)'')])"
    using join_full [OF locked_rooms cap, of 7 "Some ''pw''"] pw by (simp add: prod_eq_iff)
  moreover
  have "handleJoinRoom 7 ''locked'' None (run (full_house ''locked'' (Some ''pw'')) init) =
     (run (full_house ''locked'' (Some ''pw'')) init, [Send 7 (ErrorEnv ''Wrong password'')])"
    using join_full [OF locked_rooms cap, of 7 None] no_pw by (simp add: prod_eq_iff)
  ultimately show ?thesis
    using locked_rooms cap pw no_pw by blast
qed

section \<open>Empty password\<close>

text \<open>
  A room created with the empty string as password does not accept every later join: the
  capacity check remains. The room \<open>open\<close> was created with the empty password and has
  four clients; the next join is answered with "Room is full (max 5 players)".
\<close>

theorem empty_password_counterexample:
  "reachable (run (full_house ''open'' (Some [])) init) \<and>
   hd (full_house ''open'' (Some [])) = Message 0 (CreateRoom ''open'' (Some [])) \<and>
   rooms (run (full_house ''open'' (Some [])) init) ''open'' = Some (full_room None) \<and>
   password (full_room None) = None \<and>
   handleJoinRoom 7 ''open'' (Some []) (run (full_house ''open'' (Some [])) init) =
     (run (full_house ''open'' (Some [])) init,
      [Send 7 (ErrorEnv ''Room is full (max 5 players)'')])"
proof -
  have "handleJoinRoom 7 ''open'' (Some []) (run (full_house ''open'' (Some [])) init) =
     (run (full_house ''open'' (Some [])) init,
      [Send 7 (ErrorEnv ''Room is full (max 5 players)'')])"
    using open_rooms by (simp add: handleJoinRoom_def full_room_def truthy_str_def)
  moreover have "hd (full_house ''open'' (Some [])) = Message 0 (CreateRoom ''open'' (Some []))"
    by (simp add: full_house_def)
  ultimately show ?thesis
    using open_rooms reachable_run [OF reachable_init, of "full_house ''open'' (Some [])"]
    by (simp add: full_room_def)
qed

text \<open>
  C10, amended. Creating a room with the empty string as password does what creating it
  with no password does, and the stored password is \<open>None\<close> (\<^verbatim>\<open>null\<close>). As long as the
  room lives, whatever the events, its password stays \<open>None\<close>, a join is never answered
  with "Wrong password", the outcome of a join does not depend on the supplied password,
  and a join succeeds whenever the room has fewer than 4 clients.
\<close>

theorem empty_password_is_no_password:
  assumes "rooms s room_name = None"
    and "s1 = fst (handleCreateRoom ws room_name (Some []) s)"
  shows "handleCreateRoom ws room_name (Some []) s = handleCreateRoom ws room_name None s \<and>
    rooms s1 room_name =
      Some \<lparr>host = ws, clients = [], password = None, next_peer_id = 2\<rparr> \<and>
    (\<forall>evs rm ws' pwd. alive room_name evs s1 \<longrightarrow> rooms (run evs s1) room_name = Some rm \<longrightarrow>
       password rm = None \<and>
       snd (handleJoinRoom ws' room_name pwd (run evs s1)) \<noteq> [Send ws' (ErrorEnv ''Wrong password'')] \<and>
       handleJoinRoom ws' room_name pwd (run evs s1) = handleJoinRoom ws' room_name None (run evs s1) \<and>
       (length (clients rm) < 4 \<longrightarrow>
          (\<exists>ex. hd (snd (handleJoinRoom ws' room_name pwd (run evs s1))) =
                  Send ws' (RoomJoined room_name (next_peer_id rm) ex))))"
proof -
  have same: "handleCreateRoom ws room_name (Some []) s = handleCreateRoom ws room_name None s"
    by (simp add: handleCreateRoom_def or_null_def truthy_str_def)
  have r0: "rooms s1 room_name = Some \<lparr>host = ws, clients = [], password = None, next_peer_id = 2\<rparr>"
    using assms by (simp add: handleCreateRoom_def or_null_def truthy_str_def)
  have later: "password rm = None \<and>
       snd (handleJoinRoom ws' room_name pwd (run evs s1)) \<noteq> [Send ws' (ErrorEnv ''Wrong password'')] \<and>
       handleJoinRoom ws' room_name pwd (run evs s1) = handleJoinRoom ws' room_name None (run evs s1) \<and>
       (length (clients rm) < 4 \<longrightarrow>
          (\<exists>ex. hd (snd (handleJoinRoom ws' room_name pwd (run evs s1))) =
                  Send ws' (RoomJoined room_name (next_peer_id rm) ex)))"
    if al: "alive room_name evs s1" and rm: "rooms (run evs s1) room_name = Some rm"
    for evs rm ws' pwd
  proof -
    from run_extends [OF al r0 rm] have pw: "password rm = None"
      by (simp add: room_extends_def)
    from join_password_free [OF rm pw] pw show ?thesis by blast
  qed
  from same r0 later show ?thesis by blast
qed

theorem empty_password_is_no_password_witness:
  "rooms init ''open'' = None \<and>
   rooms (fst (handleCreateRoom 0 ''open'' (Some []) init)) ''open'' =
      Some \<lparr>host = 0, clients = [], password = None, next_peer_id = 2\<rparr> \<and>
   alive ''open'' [Message 1 (JoinRoom ''open'' (Some ''a''))] (fst (handleCreateRoom 0 ''open'' (Some []) init)) \<and>
   rooms (run [Message 1 (JoinRoom ''open'' (Some ''a''))] (fst (handleCreateRoom 0 ''open'' (Some []) init))) ''open'' =
      Some \<lparr>host = 0, clients = [(2, 1)], password = None, next_peer_id = 3\<rparr> \<and>
   length (clients \<lparr>host = 0, clients = [(2, 1)], password = None, next_peer_id = 3\<rparr>) < 4 \<and>
   handleJoinRoom 2 ''open'' (Some ''b'')
       (run [Message 1 (JoinRoom ''open'' (Some ''a''))] (fst (handleCreateRoom 0 ''open'' (Some []) init))) =
     handleJoinRoom 2 ''open'' None
       (run [Message 1 (JoinRoom ''open'' (Some ''a''))] (fst (handleCreateRoom 0 ''open'' (Some []) init))) \<and>
   hd (snd (handleJoinRoom 2 ''open'' (Some ''b'')
       (run [Message 1 (JoinRoom ''open'' (Some ''a''))] (fst (handleCreateRoom 0 ''open'' (Some []) init))))) =
     Send 2 (RoomJoined ''open'' 3 [2])"
proof -
  let ?s1 = "fst (handleCreateRoom 0 ''open'' (Some []) init)"
  let ?evs = "[Message 1 (JoinRoom ''open'' (Some ''a''))]"
  let ?rm = "\<lparr>host = 0, clients = [(2, 1)], password = None, next_peer_id = 3\<rparr>"
  have free: "rooms init ''open'' = None" by (simp add: init_def)
  have al: "alive ''open'' ?evs ?s1" by (simp add: handler_defs)
  have rm: "rooms (run ?evs ?s1) ''open'' = Some ?rm" by (simp add: handler_defs)
  have cap: "length (clients ?rm) < 4" by simp
  have out: "hd (snd (handleJoinRoom 2 ''open'' (Some ''b'') (run ?evs ?s1))) =
     Send 2 (RoomJoined ''open'' 3 [2])"
    using rm by (simp add: handleJoinRoom_def truthy_str_def)
  note h = empty_password_is_no_password [OF free refl, of 0]
  from h have r0: "rooms ?s1 ''open'' =
      Some \<lparr>host = 0, clients = [], password = None, next_peer_id = 2\<rparr>"
    by blast
  from h al rm have "handleJoinRoom 2 ''open'' (Some ''b'') (run ?evs ?s1) =
      handleJoinRoom 2 ''open'' None (run ?evs ?s1)"
    by blast
  with free r0 al rm cap out show ?thesis by blast
qed

section \<open>Signal routing\<close>

text \<open>
  Two inputs on which routing departs from the description. A room can be created and
  joined under the empty name, but \<^verbatim>\<open>!room_name\<close> holds for the empty string: a signal of
  a client of that room is dropped, although the room is in the registry. And a host signal
  with \<open>target_peer_id = 0\<close>, which names no client, is not dropped but sent to every
  client, since \<^verbatim>\<open>!target_peer_id\<close> holds for 0.
\<close>

theorem signal_routing_counterexample:
  "reachable (run nameless init) \<and>
   currentRoom (sessions (run nameless init) 1) = Some [] \<and>
   rooms (run nameless init) [] =
     Some \<lparr>host = 0, clients = [(2, 1)], password = None, next_peer_id = 3\<rparr> \<and>
   \<not> isHost (sessions (run nameless init) 1) \<and>
   handleSignal 1 ''offer'' None (run nameless init) = (run nameless init, []) \<and>
   reachable (run scenario init) \<and>
   sessions (run scenario init) 0 =
     \<lparr>currentRoom = Some ''r1'', isHost = True, peerId = 1\<rparr> \<and>
   rooms (run scenario init) ''r1'' = Some scenario_room \<and>
   map_of (clients scenario_room) 0 = None \<and>
   handleSignal 0 ''offer'' (Some 0) (run scenario init) =
     (run scenario init, [Send 1 (SignalOut ''offer'' 1), Send 2 (SignalOut ''offer'' 1)])"
proof -
  have "handleSignal 1 ''offer'' None (run nameless init) = (run nameless init, [])"
    using nameless_rooms nameless_session by (simp add: handleSignal_def truthy_str_def)
  moreover have "handleSignal 0 ''offer'' (Some 0) (run scenario init) =
     (run scenario init, [Send 1 (SignalOut ''offer'' 1), Send 2 (SignalOut ''offer'' 1)])"
    using scenario_rooms scenario_sessions(1)
    by (simp add: handleSignal_def truthy_str_def truthy_num_def scenario_room_def)
  moreover have "map_of (clients scenario_room) 0 = None"
    by (simp add: scenario_room_def)
  ultimately show ?thesis
    using nameless_rooms nameless_session scenario_rooms scenario_sessions(1) scenario_reachable
      reachable_run [OF reachable_init, of nameless]
    by simp
qed

text \<open>
  C3, amended. In a reachable state, for a connection whose current room has a non-empty
  name and is in the registry, a signal never changes the state. From a client it is sent
  to the host of the room, and to nobody else, with the peer identifier of the sender. From
  the host, a target that is a current client gets it, alone, with \<open>from_peer_id = 1\<close>; a
  target that is present, not zero and no current client gets nothing sent; an absent
  target, and the target 0 that JavaScript takes for an absent one, gets it sent to every
  current client, in the order of the map. Nothing is said here about a room with the
  empty name.
\<close>

theorem signal_routing:
  assumes "reachable s"
    and "currentRoom (sessions s ws) = Some room_name"
    and "room_name \<noteq> []"
    and "rooms s room_name = Some rm"
  shows "fst (handleSignal ws dat target_peer_id s) = s \<and>
    (\<not> isHost (sessions s ws) \<longrightarrow>
       snd (handleSignal ws dat target_peer_id s) =
         [Send (host rm) (SignalOut dat (peerId (sessions s ws)))]) \<and>
    (isHost (sessions s ws) \<longrightarrow>
       (\<forall>t client. target_peer_id = Some t \<longrightarrow> map_of (clients rm) t = Some client \<longrightarrow>
          snd (handleSignal ws dat target_peer_id s) = [Send client (SignalOut dat 1)]) \<and>
       (\<forall>t. target_peer_id = Some t \<longrightarrow> t \<noteq> 0 \<longrightarrow> map_of (clients rm) t = None \<longrightarrow>
          snd (handleSignal ws dat target_peer_id s) = []) \<and>
       (target_peer_id = None \<or> target_peer_id = Some 0 \<longrightarrow>
          snd (handleSignal ws dat target_peer_id s) =
            map (\<lambda>(k, client). Send client (SignalOut dat 1)) (clients rm)))"
proof -
  have "room_inv rm" using assms(1,4) by (rule reachable_inv)
  then have nz: "t \<noteq> 0" if "map_of (clients rm) t = Some client" for t client
    using map_of_SomeD [OF that] by (force simp: room_inv_def)
  then have out: "snd (handleSignal ws dat target_peer_id s) =
      (if \<not> isHost (sessions s ws) then [Send (host rm) (SignalOut dat (peerId (sessions s ws)))]
       else case target_peer_id of
              None \<Rightarrow> map (\<lambda>(k, client). Send client (SignalOut dat 1)) (clients rm)
            | Some t \<Rightarrow>
                if t = 0 then map (\<lambda>(k, client). Send client (SignalOut dat 1)) (clients rm)
                else (case map_of (clients rm) t of
                        None \<Rightarrow> []
                      | Some client \<Rightarrow> [Send client (SignalOut dat 1)]))"
    using assms(2-4)
    by (simp add: handleSignal_def Let_def truthy_str_def truthy_num_def split: option.splits)
  have "fst (handleSignal ws dat target_peer_id s) = s"
    by (rule handleSignal_state)
  with out nz show ?thesis by auto
qed

theorem signal_routing_witness:
  "reachable (run scenario init) \<and>
   currentRoom (sessions (run scenario init) 1) = Some ''r1'' \<and>
   currentRoom (sessions (run scenario init) 0) = Some ''r1'' \<and>
   ''r1'' \<noteq> [] \<and>
   rooms (run scenario init) ''r1'' = Some scenario_room \<and>
   \<not> isHost (sessions (run scenario init) 1) \<and>
   isHost (sessions (run scenario init) 0) \<and>
   handleSignal 1 ''offer'' None (run scenario init) =
     (run scenario init, [Send 0 (SignalOut ''offer'' 2)]) \<and>
   handleSignal 0 ''answer'' (Some 3) (run scenario init) =
     (run scenario init, [Send 2 (SignalOut ''answer'' 1)]) \<and>
   handleSignal 0 ''answer'' (Some 9) (run scenario init) = (run scenario init, []) \<and>
   handleSignal 0 ''hello'' None (run scenario init) =
     (run scenario init, [Send 1 (SignalOut ''hello'' 1), Send 2 (SignalOut ''hello'' 1)])"
proof -
  have c1: "currentRoom (sessions (run scenario init) 1) = Some ''r1''"
    and c0: "currentRoom (sessions (run scenario init) 0) = Some ''r1''"
    and h1: "\<not> isHost (sessions (run scenario init) 1)"
    and h0: "isHost (sessions (run scenario init) 0)"
    and p1: "peerId (sessions (run scenario init) 1) = 2"
    by (simp_all add: scenario_def handler_defs)
  have ne: "''r1'' \<noteq> []" by simp
  have m3: "map_of (clients scenario_room) 3 = Some 2"
    and m9: "map_of (clients scenario_room) 9 = None"
    by (simp_all add: scenario_room_def)
  have "handleSignal 1 ''offer'' None (run scenario init) =
     (run scenario init, [Send 0 (SignalOut ''offer'' 2)])"
    using signal_routing [OF scenario_reachable c1 ne scenario_rooms, of "''offer''" None] h1 p1
    by (simp add: prod_eq_iff scenario_room_def)
  moreover have "handleSignal 0 ''answer'' (Some 3) (run scenario init) =
     (run scenario init, [Send 2 (SignalOut ''answer'' 1)])"
    using signal_routing [OF scenario_reachable c0 ne scenario_rooms, of "''answer''" "Some 3"] h0 m3
    by (simp add: prod_eq_iff)
  moreover have "handleSignal 0 ''answer'' (Some 9) (run scenario init) = (run scenario init, [])"
    using signal_routing [OF scenario_reachable c0 ne scenario_rooms, of "''answer''" "Some 9"] h0 m9
    by (simp add: prod_eq_iff)
  moreover have "handleSignal 0 ''hello'' None (run scenario init) =
     (run scenario init, [Send 1 (SignalOut ''hello'' 1), Send 2 (SignalOut ''hello'' 1)])"
    using signal_routing [OF scenario_reachable c0 ne scenario_rooms, of "''hello''" None] h0
    by (simp add: prod_eq_iff scenario_room_def)
  ultimately show ?thesis
    using scenario_reachable scenario_rooms c1 c0 h1 h0 by simp
qed

section \<open>Disconnects\<close>







text \<open>
  The client branch of \<open>cleanupConnection\<close> notifies again when it runs a second time:
  in the example, connection 1 (peer 2) leaves \<open>r1\<close>; the second call with the same
  arguments sends \<open>peer_left\<close> to the host and to the remaining client once more.
\<close>

theorem cleanup_twice_counterexample:
  "reachable (run scenario init) \<and>
   sessions (run scenario init) 1 = \<lparr>currentRoom = Some ''r1'', isHost = False, peerId = 2\<rparr> \<and>
   snd (cleanupConnection ''r1'' 1 False 2 (run scenario init)) =
     [Send 0 (PeerLeft 2), Send 2 (PeerLeft 2)] \<and>
   snd (cleanupConnection ''r1'' 1 False 2
          (fst (cleanupConnection ''r1'' 1 False 2 (run scenario init)))) =
     [Send 0 (PeerLeft 2), Send 2 (PeerLeft 2)] \<and>
   snd (cleanupConnection ''r1'' 1 False 2
          (fst (cleanupConnection ''r1'' 1 False 2 (run scenario init)))) \<noteq> []"
  using scenario_rooms scenario_reachable scenario_sessions(2)
  by (simp add: cleanupConnection_def scenario_room_def)

text \<open>
  C2, amended. A second call of \<open>cleanupConnection\<close> with the same arguments leaves the
  state as the first call left it. It sends nothing in the host branch, and nothing when
  the room was not in the registry. In the client branch, when the room is still in the
  registry, it sends \<open>peer_left\<close> again to the host and to every remaining client.
\<close>

theorem cleanup_twice:
  assumes "cleanupConnection room_name ws is_host peer_id s = (s1, out1)"
    and "cleanupConnection room_name ws is_host peer_id s1 = (s2, out2)"
  shows "s2 = s1 \<and>
    (is_host \<longrightarrow> out2 = []) \<and>
    (rooms s room_name = None \<longrightarrow> out2 = []) \<and>
    (\<not> is_host \<longrightarrow> (\<forall>rm. rooms s1 room_name = Some rm \<longrightarrow>
        out2 = Send (host rm) (PeerLeft peer_id)
               # map (\<lambda>(k, client). Send client (PeerLeft peer_id)) (clients rm)))"
proof (cases "rooms s room_name")
  case None
  with assms show ?thesis by (auto simp: cleanupConnection_def)
next
  case (Some rm)
  show ?thesis
  proof (cases is_host)
    case True
    with Some assms show ?thesis by (auto simp: cleanupConnection_def)
  next
    case False
    with Some assms(1) have s1: "s1 = s\<lparr>rooms := (rooms s)(room_name \<mapsto>
        rm\<lparr>clients := AList.delete peer_id (clients rm)\<rparr>)\<rparr>"
      by (auto simp: cleanupConnection_def Let_def)
    with False Some assms(2) show ?thesis
      by (auto simp: cleanupConnection_def Let_def AList.delete_idem)
  qed
qed

theorem cleanup_twice_witness:
  "cleanupConnection ''r1'' 0 True 1 (run scenario init) =
     ((run scenario init)\<lparr>rooms := (rooms (run scenario init))(''r1'' := None)\<rparr>,
      [Send 1 HostDisconnected, CloseConn 1, Send 2 HostDisconnected, CloseConn 2]) \<and>
   cleanupConnection ''r1'' 0 True 1
       ((run scenario init)\<lparr>rooms := (rooms (run scenario init))(''r1'' := None)\<rparr>) =
     ((run scenario init)\<lparr>rooms := (rooms (run scenario init))(''r1'' := None)\<rparr>, []) \<and>
   cleanupConnection ''r1'' 1 False 2 (run scenario init) =
     ((run scenario init)\<lparr>rooms := (rooms (run scenario init))(''r1'' \<mapsto>
         scenario_room\<lparr>clients := [(3, 2)]\<rparr>)\<rparr>,
      [Send 0 (PeerLeft 2), Send 2 (PeerLeft 2)]) \<and>
   cleanupConnection ''r1'' 1 False 2
       ((run scenario init)\<lparr>rooms := (rooms (run scenario init))(''r1'' \<mapsto>
         scenario_room\<lparr>clients := [(3, 2)]\<rparr>)\<rparr>) =
     ((run scenario init)\<lparr>rooms := (rooms (run scenario init))(''r1'' \<mapsto>
         scenario_room\<lparr>clients := [(3, 2)]\<rparr>)\<rparr>,
      [Send 0 (PeerLeft 2), Send 2 (PeerLeft 2)]) \<and>
   rooms (run scenario init) ''r2'' = None \<and>
   cleanupConnection ''r2'' 1 False 2 (run scenario init) = (run scenario init, [])"
proof -
  let ?s = "run scenario init"
  let ?h = "?s\<lparr>rooms := (rooms ?s)(''r1'' := None)\<rparr>"
  let ?c = "?s\<lparr>rooms := (rooms ?s)(''r1'' \<mapsto> scenario_room\<lparr>clients := [(3, 2)]\<rparr>)\<rparr>"
  have h1: "cleanupConnection ''r1'' 0 True 1 ?s =
      (?h, [Send 1 HostDisconnected, CloseConn 1, Send 2 HostDisconnected, CloseConn 2])"
    using scenario_rooms by (simp add: cleanupConnection_def scenario_room_def)
  have h2: "cleanupConnection ''r1'' 0 True 1 ?h = (?h, [])"
    by (simp add: cleanupConnection_def)
  have c1: "cleanupConnection ''r1'' 1 False 2 ?s =
      (?c, [Send 0 (PeerLeft 2), Send 2 (PeerLeft 2)])"
    using scenario_rooms by (simp add: cleanupConnection_def scenario_room_def)
  have c2: "cleanupConnection ''r1'' 1 False 2 ?c =
      (?c, [Send 0 (PeerLeft 2), Send 2 (PeerLeft 2)])"
    by (simp add: cleanupConnection_def scenario_room_def)
  have free: "rooms ?s ''r2'' = None"
    by (simp add: scenario_rooms')
  then have n1: "cleanupConnection ''r2'' 1 False 2 ?s = (?s, [])"
    by (simp add: cleanupConnection_def)
  note cleanup_twice [OF h1 h2] cleanup_twice [OF c1 c2] cleanup_twice [OF n1 n1]
  with h1 h2 c1 c2 free n1 show ?thesis by blast
qed

section \<open>A connection that is already in a room\<close>

text \<open>
  Neither handler looks at the room of the requester. In the example, connection 1 is a
  client of \<open>r1\<close>; its request to create \<open>r2\<close> succeeds and makes it host of \<open>r2\<close>, and
  its request to join \<open>r1\<close> again succeeds and gives it a second identifier in \<open>r1\<close>.
\<close>

theorem second_room_counterexample:
  "reachable (run scenario init) \<and>
   currentRoom (sessions (run scenario init) 1) = Some ''r1'' \<and>
   rooms (run scenario init) ''r2'' = None \<and>
   snd (handleCreateRoom 1 ''r2'' None (run scenario init)) = [Send 1 (RoomCreated ''r2'' 1)] \<and>
   rooms (fst (handleCreateRoom 1 ''r2'' None (run scenario init))) ''r2'' =
     Some \<lparr>host = 1, clients = [], password = None, next_peer_id = 2\<rparr> \<and>
   snd (handleJoinRoom 1 ''r1'' None (run scenario init)) =
     [Send 1 (RoomJoined ''r1'' 4 [2, 3]), Send 0 (PeerJoined 4), Send 1 (PeerJoined 4),
      Send 2 (PeerJoined 4)] \<and>
   rooms (fst (handleJoinRoom 1 ''r1'' None (run scenario init))) ''r1'' =
     Some \<lparr>host = 0, clients = [(2, 1), (3, 2), (4, 1)], password = None, next_peer_id = 5\<rparr>"
  using scenario_rooms' scenario_reachable scenario_sessions(2)
  by (simp add: handleCreateRoom_def handleJoinRoom_def scenario_room_def or_null_def
      truthy_str_def)

text \<open>
  C6, amended. A connection that already has a room is treated like any other: what
  \<open>handleCreateRoom\<close> and \<open>handleJoinRoom\<close> do to the registry, and what they send, does
  not depend on the sessions at all. A creation under a free name, and a join that
  succeeds, overwrite the room, role and peer identifier of the requester.
\<close>

theorem create_join_ignore_session:
  "rooms (fst (handleCreateRoom ws room_name pwd (s\<lparr>sessions := \<sigma>\<rparr>))) =
     rooms (fst (handleCreateRoom ws room_name pwd s)) \<and>
   snd (handleCreateRoom ws room_name pwd (s\<lparr>sessions := \<sigma>\<rparr>)) =
     snd (handleCreateRoom ws room_name pwd s) \<and>
   rooms (fst (handleJoinRoom ws room_name pwd (s\<lparr>sessions := \<sigma>\<rparr>))) =
     rooms (fst (handleJoinRoom ws room_name pwd s)) \<and>
   snd (handleJoinRoom ws room_name pwd (s\<lparr>sessions := \<sigma>\<rparr>)) =
     snd (handleJoinRoom ws room_name pwd s) \<and>
   (rooms s room_name = None \<longrightarrow>
      snd (handleCreateRoom ws room_name pwd s) = [Send ws (RoomCreated room_name 1)] \<and>
      sessions (fst (handleCreateRoom ws room_name pwd s)) ws =
        \<lparr>currentRoom = Some room_name, isHost = True, peerId = 1\<rparr>) \<and>
   (\<forall>rm. rooms s room_name = Some rm \<longrightarrow>
      \<not> (truthy_str (password rm) \<and> password rm \<noteq> pwd) \<longrightarrow>
      length (clients rm) < 4 \<longrightarrow>
      (\<exists>ex. hd (snd (handleJoinRoom ws room_name pwd s)) =
         Send ws (RoomJoined room_name (next_peer_id rm) ex)) \<and>
      sessions (fst (handleJoinRoom ws room_name pwd s)) ws =
        \<lparr>currentRoom = Some room_name, isHost = False, peerId = next_peer_id rm\<rparr>)"
  by (auto simp: handleCreateRoom_def handleJoinRoom_def Let_def split: option.splits)

theorem create_join_ignore_session_witness:
  "rooms (run scenario init) ''r2'' = None \<and>
   currentRoom (sessions (run scenario init) 1) = Some ''r1'' \<and>
   snd (handleCreateRoom 1 ''r2'' None (run scenario init)) = [Send 1 (RoomCreated ''r2'' 1)] \<and>
   sessions (fst (handleCreateRoom 1 ''r2'' None (run scenario init))) 1 =
     \<lparr>currentRoom = Some ''r2'', isHost = True, peerId = 1\<rparr> \<and>
   rooms (run scenario init) ''r1'' = Some scenario_room \<and>
   \<not> (truthy_str (password scenario_room) \<and> password scenario_room \<noteq> None) \<and>
   length (clients scenario_room) < 4 \<and>
   sessions (fst (handleJoinRoom 1 ''r1'' None (run scenario init))) 1 =
     \<lparr>currentRoom = Some ''r1'', isHost = False, peerId = next_peer_id scenario_room\<rparr>"
proof -
  have free: "rooms (run scenario init) ''r2'' = None"
    by (simp add: scenario_rooms')
  have cur: "currentRoom (sessions (run scenario init) 1) = Some ''r1''"
    using scenario_sessions(2) by simp
  have pw: "\<not> (truthy_str (password scenario_room) \<and> password scenario_room \<noteq> None)"
    and cap: "length (clients scenario_room) < 4"
    by (simp_all add: scenario_room_def)
  note create_join_ignore_session [where ws = 1 and room_name = "''r2''" and pwd = None
      and s = "run scenario init" and \<sigma> = "sessions init"]
    create_join_ignore_session [where ws = 1 and room_name = "''r1''" and pwd = None
      and s = "run scenario init" and \<sigma> = "sessions init"]
  with free cur pw cap scenario_rooms show ?thesis by blast
qed

end
